theory Spec2Isabelle
  imports Complex_Main "HOL-Library.Multiset"
begin

section \<open>The drawing backend as seen from cairo-symbol.cc\<close>

text \<open>
  The program lays out a schematic symbol (pins, sections, symbol) and drives a cairo
  context. Conventions of this embedding:
  \<^item> a C++ \<open>double\<close> is a \<open>real\<close> (rounding is not modelled), a C++ \<open>int\<close> is an
    \<open>int\<close> (signed overflow is undefined in the source and outside the model);
  \<^item> the conversion \<open>double \<rightarrow> int\<close> of a \<open>return\<close> in a function of result type
    \<open>int\<close> truncates toward zero (\<open>double_to_int\<close>); beyond the range of \<open>int\<close> it is
    undefined in the source and outside the model;
  \<^item> \<open>get_text_extents\<close> belongs to cairo; it is a parameter of type \<open>measure\<close>. The
    sizing functions ask a fresh context on a recording surface (parameter \<open>rm\<close>), the
    drawing functions ask the context they draw on (parameter \<open>cm\<close>);
  \<^item> a drawing function returns the list of calls it makes on the context, in order.
  Record fields carry a prefix (\<open>pin_\<close>, \<open>sec_\<close>, \<open>sym_\<close>, \<open>rect_\<close>, \<open>te_\<close>) because a
  field name is a global constant in HOL; functions are named \<open>Class_method\<close>.
\<close>

record TextExtents =
  te_x_bearing :: real
  te_y_bearing :: real
  te_width :: real
  te_height :: real
  te_x_advance :: real
  te_y_advance :: real

type_synonym measure = "string \<Rightarrow> TextExtents"

record Rectangle =
  rect_x :: real
  rect_y :: real
  rect_width :: real
  rect_height :: real

datatype prim =
    Save
  | Restore
  | MoveTo real real
  | RelMoveTo real real
  | LineTo real real
  | ShowText string
  | ClosePath
  | SetLineWidth real
  | Stroke
  | SetSourceRGB real real real
  | RectanglePath real real real real

definition double_to_int :: "real \<Rightarrow> int" where
  "double_to_int d = (if 0 \<le> d then \<lfloor>d\<rfloor> else \<lceil>d\<rceil>)"

text \<open>
  \<^verbatim>\<open>
  void drawRTLText(ctx, str) {
      ctx->get_text_extents(str, extents);
      ctx->rel_move_to(-extents.width, 0);
      ctx->show_text(str);
  }
  \<close>
\<close>

definition drawRTLText :: "measure \<Rightarrow> string \<Rightarrow> prim list" where
  "drawRTLText cm str = (let extents = cm str in [RelMoveTo (- te_width extents) 0, ShowText str])"

section \<open>Pin\<close>

datatype PinDirection = IN | OUT | INOUT

record Pin =
  pin_direction :: PinDirection
  pin_name :: string
  pin_type :: string
  pin_is_bus :: bool

definition kStemLength :: real where "kStemLength = 15"
definition kWireStemWidth :: real where "kWireStemWidth = 1"
definition kBusStemWidth :: real where "kBusStemWidth = 2"
definition kTextPadding :: real where "kTextPadding = 5"

definition Pin_draw :: "measure \<Rightarrow> Pin \<Rightarrow> Rectangle \<Rightarrow> prim list" where
  "Pin_draw cm pin pos =
     [Save] @
     \<comment> \<open>Draw pin name\<close>
     [Save] @
     (if pin_direction pin = IN
      then [MoveTo (rect_x pos + kTextPadding) (rect_y pos), ShowText (pin_name pin)]
      else [MoveTo (rect_x pos - kTextPadding) (rect_y pos)] @ drawRTLText cm (pin_name pin)) @
     [ClosePath, Restore] @
     \<comment> \<open>Calculate stem alignment\<close>
     (let extents = cm (pin_name pin) in
      \<comment> \<open>Draw pin stem\<close>
      [Save,
       SetLineWidth (if pin_is_bus pin then kBusStemWidth else kWireStemWidth),
       MoveTo (rect_x pos) (rect_y pos + te_y_bearing extents / 2)] @
      (if pin_direction pin = IN
       then [LineTo (rect_x pos - kStemLength) (rect_y pos + te_y_bearing extents / 2)]
       else [LineTo (rect_x pos + kStemLength) (rect_y pos + te_y_bearing extents / 2)]) @
      [Stroke, Restore]) @
     \<comment> \<open>Draw pin type\<close>
     [Save, SetSourceRGB (1/2) (1/2) (1/2)] @
     (if pin_direction pin = IN
      then [MoveTo (rect_x pos - kTextPadding - kStemLength) (rect_y pos)] @
           drawRTLText cm (pin_type pin)
      else [MoveTo (rect_x pos + kTextPadding + kStemLength) (rect_y pos),
            ShowText (pin_type pin)]) @
     [Restore] @
     [Restore]"

definition getDirection :: "Pin \<Rightarrow> PinDirection" where
  "getDirection pin = pin_direction pin"

definition Pin_innerWidth :: "measure \<Rightarrow> Pin \<Rightarrow> int" where
  "Pin_innerWidth rm pin =
     (let extents = rm (pin_name pin) in double_to_int (kTextPadding + te_width extents))"

definition Pin_outerWidth :: "measure \<Rightarrow> Pin \<Rightarrow> int" where
  "Pin_outerWidth rm pin =
     (let extents = rm (pin_type pin)
      in double_to_int (kStemLength + kTextPadding + te_width extents))"

definition Pin_height :: "measure \<Rightarrow> int" where
  "Pin_height rm = (let extents = rm ''Hello world'' in double_to_int (te_height extents))"

section \<open>Section\<close>

record Section =
  sec_pins :: "Pin list"
  sec_name :: string

definition kTextSeparator :: real where "kTextSeparator = 10"
definition kTopBottomPadding :: real where "kTopBottomPadding = 10"
definition kBorderThickness :: real where "kBorderThickness = 3/2"
definition kPinSpacing :: real where "kPinSpacing = 5"

text \<open>The loop of \<open>Section::rows\<close>, with its two counters as accumulators.\<close>

fun rows_loop :: "Pin list \<Rightarrow> int \<Rightarrow> int \<Rightarrow> int \<times> int" where
  "rows_loop [] left_rows right_rows = (left_rows, right_rows)"
| "rows_loop (pin # pins) left_rows right_rows =
     (if getDirection pin = IN
      then rows_loop pins (left_rows + 1) right_rows
      else rows_loop pins left_rows (right_rows + 1))"

definition Section_rows :: "Section \<Rightarrow> int" where
  "Section_rows s =
     (case rows_loop (sec_pins s) 0 0 of
        (left_rows, right_rows) \<Rightarrow> if left_rows > right_rows then left_rows else right_rows)"

definition Section_new :: "string \<Rightarrow> Section" where
  "Section_new n = \<lparr>sec_pins = [], sec_name = n\<rparr>"

definition Section_addPin :: "Section \<Rightarrow> Pin \<Rightarrow> Section" where
  "Section_addPin s pin = s\<lparr>sec_pins := sec_pins s @ [pin]\<rparr>"

definition Section_height :: "measure \<Rightarrow> Section \<Rightarrow> int" where
  "Section_height rm s =
     double_to_int (kPinSpacing * real_of_int (Section_rows s - 1)
                    + real_of_int (Section_rows s * Pin_height rm)
                    + 2 * kTopBottomPadding)"

text \<open>The loop of \<open>Section::minInnerWidth\<close>: the second test is an \<open>else if\<close>.\<close>

fun minInnerWidth_loop :: "measure \<Rightarrow> Pin list \<Rightarrow> int \<Rightarrow> int \<Rightarrow> int \<times> int" where
  "minInnerWidth_loop rm [] leftInnerWidth rightInnerWidth = (leftInnerWidth, rightInnerWidth)"
| "minInnerWidth_loop rm (pin # pins) leftInnerWidth rightInnerWidth =
     (if Pin_innerWidth rm pin > leftInnerWidth \<and> getDirection pin = IN
      then minInnerWidth_loop rm pins (Pin_innerWidth rm pin) rightInnerWidth
      else if Pin_innerWidth rm pin > rightInnerWidth \<and> getDirection pin = OUT
      then minInnerWidth_loop rm pins leftInnerWidth (Pin_innerWidth rm pin)
      else minInnerWidth_loop rm pins leftInnerWidth rightInnerWidth)"

definition Section_minInnerWidth :: "measure \<Rightarrow> Section \<Rightarrow> int" where
  "Section_minInnerWidth rm s =
     (case minInnerWidth_loop rm (sec_pins s) 0 0 of
        (leftInnerWidth, rightInnerWidth) \<Rightarrow>
          double_to_int (real_of_int leftInnerWidth + kTextSeparator + real_of_int rightInnerWidth))"

fun minOuterWidth_loop :: "measure \<Rightarrow> Pin list \<Rightarrow> int \<Rightarrow> int" where
  "minOuterWidth_loop rm [] minOuterWidth = minOuterWidth"
| "minOuterWidth_loop rm (pin # pins) minOuterWidth =
     (if Pin_outerWidth rm pin > minOuterWidth
      then minOuterWidth_loop rm pins (Pin_outerWidth rm pin)
      else minOuterWidth_loop rm pins minOuterWidth)"

definition Section_minOuterWidth :: "measure \<Rightarrow> Section \<Rightarrow> int" where
  "Section_minOuterWidth rm s = minOuterWidth_loop rm (sec_pins s) 0"

text \<open>
  \<open>std::copy_if\<close> with a \<open>back_inserter\<close>: one pass over the source range, appending
  each element that satisfies the predicate to the destination vector.
\<close>

fun copy_if :: "'a list \<Rightarrow> 'a list \<Rightarrow> ('a \<Rightarrow> bool) \<Rightarrow> 'a list" where
  "copy_if [] dest pred = dest"
| "copy_if (a # as) dest pred =
     (if pred a then copy_if as (dest @ [a]) pred else copy_if as dest pred)"

text \<open>
  One column loop of \<open>Section::draw\<close>:
  \<^verbatim>\<open>
  for (const auto& pin: left_pins) {
      pin_rect.y += pin.height();
      pin.draw(ctx, pin_rect);
      pin_rect.y += kPinSpacing;
  }
  \<close>
  It yields the calls of \<open>Pin::draw\<close> it makes, each with the rectangle it passes.
\<close>

fun column_loop :: "measure \<Rightarrow> Pin list \<Rightarrow> Rectangle \<Rightarrow> (Pin \<times> Rectangle) list" where
  "column_loop rm [] pin_rect = []"
| "column_loop rm (pin # pins) pin_rect =
     (let pin_rect1 = pin_rect\<lparr>rect_y := rect_y pin_rect + real_of_int (Pin_height rm)\<rparr>;
          pin_rect2 = pin_rect1\<lparr>rect_y := rect_y pin_rect1 + kPinSpacing\<rparr>
      in (pin, pin_rect1) # column_loop rm pins pin_rect2)"

definition Section_left_calls :: "measure \<Rightarrow> Section \<Rightarrow> Rectangle \<Rightarrow> (Pin \<times> Rectangle) list" where
  "Section_left_calls rm s pos =
     (let left_pins = copy_if (sec_pins s) [] (\<lambda>pin. getDirection pin = IN);
          pin_rect = \<lparr>rect_x = rect_x pos, rect_y = rect_y pos + kTopBottomPadding,
                      rect_width = 0, rect_height = 0\<rparr>
      in column_loop rm left_pins pin_rect)"

definition Section_right_calls :: "measure \<Rightarrow> Section \<Rightarrow> Rectangle \<Rightarrow> (Pin \<times> Rectangle) list" where
  "Section_right_calls rm s pos =
     (let right_pins = copy_if (sec_pins s) [] (\<lambda>pin. getDirection pin \<noteq> IN);
          pin_rect = \<lparr>rect_x = rect_x pos + rect_width pos,
                      rect_y = rect_y pos + kTopBottomPadding,
                      rect_width = 0, rect_height = 0\<rparr>
      in column_loop rm right_pins pin_rect)"

definition Section_draw :: "measure \<Rightarrow> measure \<Rightarrow> Section \<Rightarrow> Rectangle \<Rightarrow> prim list" where
  "Section_draw rm cm s pos =
     [Save] @
     \<comment> \<open>Draw section rectangle\<close>
     [RectanglePath (rect_x pos) (rect_y pos) (rect_width pos) (rect_height pos), Stroke] @
     concat (map (\<lambda>(pin, pin_rect). Pin_draw cm pin pin_rect) (Section_left_calls rm s pos)) @
     concat (map (\<lambda>(pin, pin_rect). Pin_draw cm pin pin_rect) (Section_right_calls rm s pos)) @
     [Restore]"

section \<open>Symbol\<close>

record Symbol =
  sym_sections :: "Section list"
  sym_name :: string

definition kNameSpacing :: real where "kNameSpacing = 5"

definition Symbol_new :: "string \<Rightarrow> Symbol" where
  "Symbol_new n = \<lparr>sym_sections = [], sym_name = n\<rparr>"

definition Symbol_addSection :: "Symbol \<Rightarrow> Section \<Rightarrow> Symbol" where
  "Symbol_addSection symb s = symb\<lparr>sym_sections := sym_sections symb @ [s]\<rparr>"

text \<open>The first loop of \<open>Symbol::draw\<close>: two independent \<open>if\<close>s per section.\<close>

fun widths_loop :: "measure \<Rightarrow> Section list \<Rightarrow> int \<Rightarrow> int \<Rightarrow> int \<times> int" where
  "widths_loop rm [] innerWidth outerWidth = (innerWidth, outerWidth)"
| "widths_loop rm (s # ss) innerWidth outerWidth =
     (let innerWidth1 = (if Section_minInnerWidth rm s > innerWidth
                         then Section_minInnerWidth rm s else innerWidth);
          outerWidth1 = (if Section_minOuterWidth rm s > outerWidth
                         then Section_minOuterWidth rm s else outerWidth)
      in widths_loop rm ss innerWidth1 outerWidth1)"

text \<open>
  The second loop of \<open>Symbol::draw\<close>: for every section the rectangle \<open>r\<close> is built
  from the two widths and the extents of the symbol name, and \<open>section.draw(ctx, r)\<close> is
  called. It yields these calls.
\<close>

fun sections_loop ::
  "measure \<Rightarrow> Section list \<Rightarrow> int \<Rightarrow> int \<Rightarrow> TextExtents \<Rightarrow> (Section \<times> Rectangle) list" where
  "sections_loop rm [] innerWidth outerWidth extents = []"
| "sections_loop rm (s # ss) innerWidth outerWidth extents =
     (let r = \<lparr>rect_x = real_of_int outerWidth,
               rect_y = te_height extents + kNameSpacing,
               rect_width = real_of_int innerWidth,
               rect_height = real_of_int (Section_height rm s)\<rparr>
      in (s, r) # sections_loop rm ss innerWidth outerWidth extents)"

definition Symbol_section_calls :: "measure \<Rightarrow> measure \<Rightarrow> Symbol \<Rightarrow> (Section \<times> Rectangle) list" where
  "Symbol_section_calls rm cm symb =
     (case widths_loop rm (sym_sections symb) 0 0 of
        (innerWidth, outerWidth) \<Rightarrow>
          sections_loop rm (sym_sections symb) innerWidth outerWidth (cm (sym_name symb)))"

definition Symbol_draw :: "measure \<Rightarrow> measure \<Rightarrow> Symbol \<Rightarrow> prim list" where
  "Symbol_draw rm cm symb =
     (case widths_loop rm (sym_sections symb) 0 0 of
        (innerWidth, outerWidth) \<Rightarrow>
          \<comment> \<open>Draw symbol name\<close>
          (let extents = cm (sym_name symb) in
           [Save,
            MoveTo (real_of_int outerWidth + (real_of_int innerWidth - te_width extents) / 2)
                   (te_height extents),
            ShowText (sym_name symb),
            Restore] @
           concat (map (\<lambda>(s, r). Section_draw rm cm s r) (Symbol_section_calls rm cm symb))))"

section \<open>The sample data of \<open>main\<close>, and a sample measurement\<close>

text \<open>The four pins and the section that \<open>main\<close> builds.\<close>

definition pin1 :: Pin where
  "pin1 = \<lparr>pin_direction = IN, pin_name = ''i_foo'', pin_type = ''logic [15:0]'', pin_is_bus = True\<rparr>"
definition pin2 :: Pin where
  "pin2 = \<lparr>pin_direction = OUT, pin_name = ''o_bar'', pin_type = ''logic'', pin_is_bus = False\<rparr>"
definition pin3 :: Pin where
  "pin3 = \<lparr>pin_direction = IN, pin_name = ''i_foobar'', pin_type = ''logic'', pin_is_bus = False\<rparr>"
definition pin4 :: Pin where
  "pin4 = \<lparr>pin_direction = IN, pin_name = ''i_barfoo'', pin_type = ''logic [15:0]'', pin_is_bus = True\<rparr>"

definition main_pins :: Section where
  "main_pins =
     Section_addPin (Section_addPin (Section_addPin (Section_addPin (Section_new '''') pin1) pin2) pin3) pin4"

text \<open>
  A measurement for evaluating the functions on concrete inputs: every character is 6
  wide, every text 8 high and rising 8 above the baseline.
\<close>

definition mono_measure :: measure where
  "mono_measure str =
     \<lparr>te_x_bearing = 0, te_y_bearing = - 8, te_width = 6 * real (length str),
      te_height = 8, te_x_advance = 6 * real (length str), te_y_advance = 0\<rparr>"

text \<open>
  The maximum of a list of widths as the specification words it: the largest element, and
  0 for the empty list.
\<close>

definition max_or_zero :: "int list \<Rightarrow> int" where
  "max_or_zero xs = (if xs = [] then 0 else Max (set xs))"

text \<open>A bidirectional pin with a long name, and a section holding one pin of each direction.\<close>

definition pin5 :: Pin where
  "pin5 = \<lparr>pin_direction = INOUT, pin_name = ''io_bidirectional'', pin_type = ''wire'', pin_is_bus = False\<rparr>"

definition io_section :: Section where
  "io_section = Section_addPin (Section_addPin (Section_addPin (Section_new ''io'') pin1) pin2) pin5"

text \<open>A rectangle to draw a section at.\<close>

definition sample_rect :: Rectangle where
  "sample_rect = \<lparr>rect_x = 92, rect_y = 13, rect_width = 98, rect_height = 54\<rparr>"

text \<open>A second, narrower section, and a symbol holding the section of \<open>main\<close> and this one.\<close>

definition clk_section :: Section where
  "clk_section =
     Section_addPin (Section_new ''clock'')
       \<lparr>pin_direction = IN, pin_name = ''clk'', pin_type = ''logic'', pin_is_bus = False\<rparr>"

definition two_symbol :: Symbol where
  "two_symbol = Symbol_addSection (Symbol_addSection (Symbol_new ''My symbol'') main_pins) clk_section"

section \<open>Where the calls put text and lines\<close>

text \<open>
  Modelled from the spec: the drawing interface of the backend (cairo, not part of the
  repository), as far as the position of text and lines goes. The specification lists
  move-to, line-to, paint-text and a relative move by the measured width for text that
  ends at a point. \<open>marks\<close> replays a list of calls with the current point: a text
  painted at the current point \<open>(x, y)\<close> covers \<open>x\<close> to \<open>x + width\<close> on the baseline \<open>y\<close>
  and moves the current point by its advance; a line goes from the current point to its
  target. After \<open>stroke\<close> and \<open>close_path\<close> the current point is taken as unknown
  (\<open>None\<close>), and nothing is recorded for a text or a relative move at an unknown point.
  Saving and restoring the graphics state, the line width and the colour leave the
  current point alone.
\<close>

datatype mark =
    TextSpan string real real real
  | Segment real real real real

fun marks :: "measure \<Rightarrow> (real \<times> real) option \<Rightarrow> prim list \<Rightarrow> mark list" where
  "marks cm cp [] = []"
| "marks cm cp (MoveTo x y # ps) = marks cm (Some (x, y)) ps"
| "marks cm cp (RelMoveTo dx dy # ps) =
     (case cp of
        None \<Rightarrow> marks cm None ps
      | Some (x, y) \<Rightarrow> marks cm (Some (x + dx, y + dy)) ps)"
| "marks cm cp (LineTo x y # ps) =
     (case cp of
        None \<Rightarrow> marks cm (Some (x, y)) ps
      | Some (x0, y0) \<Rightarrow> Segment x0 y0 x y # marks cm (Some (x, y)) ps)"
| "marks cm cp (ShowText str # ps) =
     (case cp of
        None \<Rightarrow> marks cm None ps
      | Some (x, y) \<Rightarrow>
          TextSpan str x (x + te_width (cm str)) y
          # marks cm (Some (x + te_x_advance (cm str), y + te_y_advance (cm str))) ps)"
| "marks cm cp (RectanglePath x y w h # ps) = marks cm (Some (x, y)) ps"
| "marks cm cp (Stroke # ps) = marks cm None ps"
| "marks cm cp (ClosePath # ps) = marks cm None ps"
| "marks cm cp (Save # ps) = marks cm cp ps"
| "marks cm cp (Restore # ps) = marks cm cp ps"
| "marks cm cp (SetLineWidth w # ps) = marks cm cp ps"
| "marks cm cp (SetSourceRGB r g b # ps) = marks cm cp ps"

text \<open>The reflection of a mark in the vertical line \<open>x = a\<close>.\<close>

fun mirror :: "real \<Rightarrow> mark \<Rightarrow> mark" where
  "mirror a (TextSpan str x0 x1 y) = TextSpan str (2 * a - x1) (2 * a - x0) y"
| "mirror a (Segment x0 y0 x1 y1) = Segment (2 * a - x0) y0 (2 * a - x1) y1"

section \<open>Facts about the sizing functions\<close>

lemma double_to_int_of_int: "double_to_int (real_of_int n) = n"
  by (simp add: double_to_int_def)

lemma double_to_int_nonneg: "0 \<le> d \<Longrightarrow> 0 \<le> double_to_int d"
  by (simp add: double_to_int_def)

lemma rows_loop_count:
  "rows_loop pins l r =
     (l + int (length (filter (\<lambda>p. pin_direction p = IN) pins)),
      r + int (length (filter (\<lambda>p. pin_direction p \<noteq> IN) pins)))"
  by (induction pins arbitrary: l r) (simp_all add: getDirection_def)

lemma not_IN_iff: "(d \<noteq> IN) = (d = OUT \<or> d = INOUT)"
  by (cases d) simp_all

lemma Section_rows_max:
  "Section_rows s =
     max (int (length (filter (\<lambda>p. pin_direction p = IN) (sec_pins s))))
         (int (length (filter (\<lambda>p. pin_direction p \<noteq> IN) (sec_pins s))))"
  by (simp add: Section_rows_def rows_loop_count max_def)

lemma Section_height_int:
  "Section_height rm s = 5 * (Section_rows s - 1) + Section_rows s * Pin_height rm + 20"
proof -
  have "kPinSpacing * real_of_int (Section_rows s - 1)
          + real_of_int (Section_rows s * Pin_height rm) + 2 * kTopBottomPadding
        = real_of_int (5 * (Section_rows s - 1) + Section_rows s * Pin_height rm + 20)"
    by (simp add: kPinSpacing_def kTopBottomPadding_def)
  then show ?thesis
    unfolding Section_height_def by (simp only: double_to_int_of_int)
qed

lemma main_pins_rows: "Section_rows main_pins = 3"
  by (simp add: main_pins_def pin1_def pin2_def pin3_def pin4_def Section_new_def
      Section_addPin_def Section_rows_def getDirection_def)

section \<open>Rows and height of a section\<close>

text \<open>
  Claim C2. For every section, \<open>rows()\<close> is the larger of the number of IN pins and
  the number of OUT or INOUT pins, and \<open>height()\<close> is
  \<open>kPinSpacing * (rows() - 1) + rows() * Pin::height() + 2 * kTopBottomPadding\<close>. For
  the section of \<open>main\<close> (i_foo IN, o_bar OUT, i_foobar IN, i_barfoo IN), \<open>rows()\<close>
  is 3 and \<open>height()\<close> is \<open>kPinSpacing * 2 + 3 * Pin::height() + 2 * kTopBottomPadding\<close>.
\<close>

theorem C2_rows_and_height:
  "Section_rows s =
     max (int (length (filter (\<lambda>p. pin_direction p = IN) (sec_pins s))))
         (int (length (filter (\<lambda>p. pin_direction p = OUT \<or> pin_direction p = INOUT) (sec_pins s))))
   \<and> real_of_int (Section_height rm s) =
       kPinSpacing * real_of_int (Section_rows s - 1)
       + real_of_int (Section_rows s) * real_of_int (Pin_height rm)
       + 2 * kTopBottomPadding
   \<and> Section_rows main_pins = 3
   \<and> real_of_int (Section_height rm main_pins) =
       kPinSpacing * 2 + 3 * real_of_int (Pin_height rm) + 2 * kTopBottomPadding"
proof -
  have rows: "Section_rows s =
     max (int (length (filter (\<lambda>p. pin_direction p = IN) (sec_pins s))))
         (int (length (filter (\<lambda>p. pin_direction p = OUT \<or> pin_direction p = INOUT) (sec_pins s))))"
    using Section_rows_max [of s] by (simp only: not_IN_iff)
  have height: "real_of_int (Section_height rm t) =
       kPinSpacing * real_of_int (Section_rows t - 1)
       + real_of_int (Section_rows t) * real_of_int (Pin_height rm)
       + 2 * kTopBottomPadding" for t
    by (simp add: Section_height_int kPinSpacing_def kTopBottomPadding_def)
  have main: "real_of_int (Section_height rm main_pins) =
       kPinSpacing * 2 + 3 * real_of_int (Pin_height rm) + 2 * kTopBottomPadding"
    using height [of main_pins] by (simp add: main_pins_rows)
  from rows height [of s] main_pins_rows main show ?thesis by blast
qed

text \<open>
  Claim C6. For a section with no pin, \<open>height()\<close> is not negative; its result type
  is \<open>int\<close>, so it is a number. The value is 15: \<open>rows()\<close> is 0, the spacing term is
  \<open>- kPinSpacing\<close> and the padding term is \<open>2 * kTopBottomPadding\<close>.
\<close>

theorem C6_empty_section_height:
  "sec_pins s = [] \<Longrightarrow> Section_height rm s = 15 \<and> 0 \<le> Section_height rm s"
  by (simp add: Section_height_int Section_rows_def)

theorem C6_empty_section_height_witness:
  "sec_pins (Section_new '''') = [] \<and> Section_height mono_measure (Section_new '''') = 15"
  using C6_empty_section_height [of "Section_new ''''" mono_measure]
  by (simp add: Section_new_def)

lemma Pin_height_nonneg: "0 \<le> te_height (rm ''Hello world'') \<Longrightarrow> 0 \<le> Pin_height rm"
  by (simp add: Pin_height_def double_to_int_nonneg)

lemma Section_rows_addPin: "Section_rows s \<le> Section_rows (Section_addPin s pin)"
  by (auto simp add: Section_rows_max Section_addPin_def max_def)

lemma Section_height_mono_rows:
  assumes "0 \<le> Pin_height rm" and "Section_rows s \<le> Section_rows t"
  shows "Section_height rm s \<le> Section_height rm t"
proof -
  have "Section_rows s * Pin_height rm \<le> Section_rows t * Pin_height rm"
    using assms by (rule_tac mult_right_mono)
  with assms(2) show ?thesis by (simp add: Section_height_int)
qed

text \<open>
  Claim C8. Adding a pin with \<open>addPin\<close> never lowers \<open>height()\<close>, whatever the
  direction of the pin, provided the measured height of the reference text is not
  negative; and \<open>height()\<close> is the same for two sections with the same number of IN
  pins and the same number of other pins, in particular for two sections holding the
  same pins in a different order.
\<close>

theorem C8_height_monotone_order_free:
  "(0 \<le> te_height (rm ''Hello world'') \<longrightarrow>
      Section_height rm s \<le> Section_height rm (Section_addPin s pin))
   \<and> (length (filter (\<lambda>p. pin_direction p = IN) (sec_pins s))
        = length (filter (\<lambda>p. pin_direction p = IN) (sec_pins t))
      \<and> length (filter (\<lambda>p. pin_direction p \<noteq> IN) (sec_pins s))
        = length (filter (\<lambda>p. pin_direction p \<noteq> IN) (sec_pins t))
      \<longrightarrow> Section_height rm s = Section_height rm t)
   \<and> (mset (sec_pins s) = mset (sec_pins t) \<longrightarrow> Section_height rm s = Section_height rm t)"
proof (intro conjI impI)
  assume "0 \<le> te_height (rm ''Hello world'')"
  then show "Section_height rm s \<le> Section_height rm (Section_addPin s pin)"
    by (intro Section_height_mono_rows Pin_height_nonneg Section_rows_addPin)
next
  assume "length (filter (\<lambda>p. pin_direction p = IN) (sec_pins s))
        = length (filter (\<lambda>p. pin_direction p = IN) (sec_pins t))
      \<and> length (filter (\<lambda>p. pin_direction p \<noteq> IN) (sec_pins s))
        = length (filter (\<lambda>p. pin_direction p \<noteq> IN) (sec_pins t))"
  then show "Section_height rm s = Section_height rm t"
    by (simp add: Section_height_int Section_rows_max)
next
  assume m: "mset (sec_pins s) = mset (sec_pins t)"
  have "length (filter P (sec_pins s)) = length (filter P (sec_pins t))" for P
  proof -
    have "filter_mset P (mset (sec_pins s)) = filter_mset P (mset (sec_pins t))"
      using m by simp
    then have "mset (filter P (sec_pins s)) = mset (filter P (sec_pins t))"
      by (simp only: mset_filter)
    then show ?thesis by (rule mset_eq_length)
  qed
  then show "Section_height rm s = Section_height rm t"
    by (simp add: Section_height_int Section_rows_max)
qed

theorem C8_height_monotone_order_free_witness:
  "0 \<le> te_height (mono_measure ''Hello world'')
   \<and> Section_height mono_measure main_pins = 54
   \<and> Section_height mono_measure (Section_addPin main_pins pin2) = 54
   \<and> Section_height mono_measure (Section_addPin main_pins pin1) = 67
   \<and> mset (sec_pins main_pins) = mset [pin4, pin3, pin2, pin1]
   \<and> length (filter (\<lambda>p. pin_direction p = IN) (sec_pins main_pins)) = 3
   \<and> length (filter (\<lambda>p. pin_direction p = IN) [pin4, pin3, pin2, pin1]) = 3
   \<and> length (filter (\<lambda>p. pin_direction p \<noteq> IN) (sec_pins main_pins)) = 1
   \<and> length (filter (\<lambda>p. pin_direction p \<noteq> IN) [pin4, pin3, pin2, pin1]) = 1
   \<and> Section_height mono_measure \<lparr>sec_pins = [pin4, pin3, pin2, pin1], sec_name = ''''\<rparr> = 54"
  using C8_height_monotone_order_free [of mono_measure main_pins pin1
          "\<lparr>sec_pins = [pin4, pin3, pin2, pin1], sec_name = ''''\<rparr>"]
  by (simp add: Section_height_int Section_rows_max Pin_height_def mono_measure_def
      double_to_int_def main_pins_def Section_new_def Section_addPin_def
      pin1_def pin2_def pin3_def pin4_def)

section \<open>Widths of a section\<close>

text \<open>The loops that keep a running maximum compute the maximum of the seed and the values.\<close>

lemma Max_seed_Cons:
  fixes m :: int
  shows "Max (set (m # x # xs)) = Max (set (max m x # xs))"
  by (cases "xs = []") (simp_all add: max.assoc)

lemma minOuterWidth_loop_Max:
  "minOuterWidth_loop rm pins m = Max (set (m # map (Pin_outerWidth rm) pins))"
proof (induction pins arbitrary: m)
  case Nil
  show ?case by simp
next
  case (Cons pin pins)
  show ?case
    by (simp only: minOuterWidth_loop.simps list.map Max_seed_Cons Cons.IH max_def
        split: if_splits) auto
qed

lemma minInnerWidth_loop_Max:
  "minInnerWidth_loop rm pins l r =
     (Max (set (l # map (Pin_innerWidth rm) (filter (\<lambda>p. pin_direction p = IN) pins))),
      Max (set (r # map (Pin_innerWidth rm) (filter (\<lambda>p. pin_direction p = OUT) pins))))"
proof (induction pins arbitrary: l r)
  case Nil
  show ?case by simp
next
  case (Cons pin pins)
  show ?case
  proof (cases "pin_direction pin")
    case IN
    then show ?thesis
      by (simp add: getDirection_def Cons.IH Max_seed_Cons max_def del: set_simps Max_insert)
  next
    case OUT
    then show ?thesis
      by (simp add: getDirection_def Cons.IH Max_seed_Cons max_def del: set_simps Max_insert)
  next
    case INOUT
    then show ?thesis
      by (simp add: getDirection_def Cons.IH)
  qed
qed

lemma Max_seed_nonneg:
  fixes xs :: "int list"
  shows "0 \<le> Max (set (0 # xs))"
  by simp

lemma Max_seed_zero:
  fixes xs :: "int list"
  assumes "\<forall>x \<in> set xs. 0 \<le> x"
  shows "Max (set (0 # xs)) = max_or_zero xs"
proof (cases "xs = []")
  case True
  then show ?thesis by (simp add: max_or_zero_def)
next
  case False
  then obtain x where x: "x \<in> set xs"
    by (cases xs) auto
  with assms have "0 \<le> x" by blast
  also have "x \<le> Max (set xs)"
    using x by simp
  finally show ?thesis
    using False by (simp add: max_or_zero_def)
qed

lemma Section_minInnerWidth_seed:
  "Section_minInnerWidth rm s =
     Max (set (0 # map (Pin_innerWidth rm) (filter (\<lambda>p. pin_direction p = IN) (sec_pins s))))
     + 10
     + Max (set (0 # map (Pin_innerWidth rm) (filter (\<lambda>p. pin_direction p = OUT) (sec_pins s))))"
proof -
  have "real_of_int a + kTextSeparator + real_of_int b = real_of_int (a + 10 + b)" for a b
    by (simp add: kTextSeparator_def)
  then show ?thesis
    unfolding Section_minInnerWidth_def minInnerWidth_loop_Max
    by (simp only: double_to_int_of_int prod.case)
qed

lemma Pin_innerWidth_nonneg:
  "0 \<le> te_width (rm (pin_name pin)) \<Longrightarrow> 0 \<le> Pin_innerWidth rm pin"
  by (simp add: Pin_innerWidth_def kTextPadding_def double_to_int_nonneg)

lemma filter_not_INOUT:
  "filter (\<lambda>p. pin_direction p = IN) (filter (\<lambda>p. pin_direction p \<noteq> INOUT) pins)
     = filter (\<lambda>p. pin_direction p = IN) pins"
  "filter (\<lambda>p. pin_direction p = OUT) (filter (\<lambda>p. pin_direction p \<noteq> INOUT) pins)
     = filter (\<lambda>p. pin_direction p = OUT) pins"
  by (induction pins) auto

lemma copy_if_filter: "copy_if xs dest P = dest @ filter P xs"
  by (induction xs arbitrary: dest) simp_all

lemma column_loop_pins: "map fst (column_loop rm pins pin_rect) = pins"
  by (induction pins arbitrary: pin_rect) (simp_all add: Let_def)

lemma Section_left_calls_pins:
  "map fst (Section_left_calls rm s pos) = filter (\<lambda>p. pin_direction p = IN) (sec_pins s)"
  by (simp add: Section_left_calls_def copy_if_filter column_loop_pins getDirection_def)

lemma Section_right_calls_pins:
  "map fst (Section_right_calls rm s pos) = filter (\<lambda>p. pin_direction p \<noteq> IN) (sec_pins s)"
  by (simp add: Section_right_calls_def copy_if_filter column_loop_pins getDirection_def)

text \<open>
  Claim C4. For every section, \<open>minInnerWidth()\<close> is the largest \<open>innerWidth()\<close> of
  its IN pins, plus \<open>kTextSeparator\<close>, plus the largest \<open>innerWidth()\<close> of its OUT
  pins, each maximum being 0 when there is no such pin (measured widths are not negative).
  INOUT pins count in neither maximum: removing them leaves the result unchanged, although
  \<open>draw\<close> puts every one of them in the right column.
\<close>

theorem C4_minInnerWidth:
  assumes "\<forall>str. 0 \<le> te_width (rm str)"
  shows "real_of_int (Section_minInnerWidth rm s) =
           real_of_int (max_or_zero (map (Pin_innerWidth rm)
                          (filter (\<lambda>p. pin_direction p = IN) (sec_pins s))))
           + kTextSeparator
           + real_of_int (max_or_zero (map (Pin_innerWidth rm)
                            (filter (\<lambda>p. pin_direction p = OUT) (sec_pins s))))
         \<and> Section_minInnerWidth rm
             (s\<lparr>sec_pins := filter (\<lambda>p. pin_direction p \<noteq> INOUT) (sec_pins s)\<rparr>)
           = Section_minInnerWidth rm s
         \<and> filter (\<lambda>p. pin_direction p = INOUT) (map fst (Section_right_calls rm s pos))
           = filter (\<lambda>p. pin_direction p = INOUT) (sec_pins s)"
proof (intro conjI)
  have nn: "\<forall>x \<in> set (map (Pin_innerWidth rm) ps). 0 \<le> x" for ps
    using assms by (simp add: Pin_innerWidth_nonneg)
  show "real_of_int (Section_minInnerWidth rm s) =
           real_of_int (max_or_zero (map (Pin_innerWidth rm)
                          (filter (\<lambda>p. pin_direction p = IN) (sec_pins s))))
           + kTextSeparator
           + real_of_int (max_or_zero (map (Pin_innerWidth rm)
                            (filter (\<lambda>p. pin_direction p = OUT) (sec_pins s))))"
    by (simp only: Section_minInnerWidth_seed Max_seed_zero [OF nn])
       (simp add: kTextSeparator_def)
next
  show "Section_minInnerWidth rm
             (s\<lparr>sec_pins := filter (\<lambda>p. pin_direction p \<noteq> INOUT) (sec_pins s)\<rparr>)
           = Section_minInnerWidth rm s"
    by (simp add: Section_minInnerWidth_seed filter_not_INOUT
        del: set_simps Max_insert filter_filter)
next
  show "filter (\<lambda>p. pin_direction p = INOUT) (map fst (Section_right_calls rm s pos))
           = filter (\<lambda>p. pin_direction p = INOUT) (sec_pins s)"
    by (simp only: Section_right_calls_pins filter_filter) (rule filter_cong, auto)
qed

theorem C4_minInnerWidth_witness:
  "(\<forall>str. 0 \<le> te_width (mono_measure str))
   \<and> Pin_innerWidth mono_measure pin5 = 101
   \<and> Section_minInnerWidth mono_measure io_section = 35 + 10 + 35
   \<and> map fst (Section_right_calls mono_measure io_section sample_rect) = [pin2, pin5]"
proof -
  have h: "\<forall>str. 0 \<le> te_width (mono_measure str)"
    by (simp add: mono_measure_def)
  have l: "max_or_zero (map (Pin_innerWidth mono_measure)
               (filter (\<lambda>p. pin_direction p = IN) (sec_pins io_section))) = 35"
    by (simp add: io_section_def Section_new_def Section_addPin_def pin1_def pin2_def pin5_def
        max_or_zero_def Pin_innerWidth_def mono_measure_def kTextPadding_def double_to_int_def)
  have r: "max_or_zero (map (Pin_innerWidth mono_measure)
               (filter (\<lambda>p. pin_direction p = OUT) (sec_pins io_section))) = 35"
    by (simp add: io_section_def Section_new_def Section_addPin_def pin1_def pin2_def pin5_def
        max_or_zero_def Pin_innerWidth_def mono_measure_def kTextPadding_def double_to_int_def)
  have "real_of_int (Section_minInnerWidth mono_measure io_section) = 80"
    using C4_minInnerWidth [OF h, of io_section sample_rect]
    by (simp add: l r kTextSeparator_def)
  then have "Section_minInnerWidth mono_measure io_section = 80"
    by linarith
  moreover have "Pin_innerWidth mono_measure pin5 = 101"
    by (simp add: pin5_def Pin_innerWidth_def mono_measure_def kTextPadding_def double_to_int_def)
  moreover have "map fst (Section_right_calls mono_measure io_section sample_rect) = [pin2, pin5]"
    by (simp add: Section_right_calls_pins io_section_def Section_new_def Section_addPin_def
        pin1_def pin2_def pin5_def)
  ultimately show ?thesis using h by simp
qed

section \<open>The columns of \<open>Section::draw\<close>\<close>

lemma column_loop_x:
  "map (rect_x \<circ> snd) (column_loop rm pins pin_rect) = replicate (length pins) (rect_x pin_rect)"
  by (induction pins arbitrary: pin_rect) (simp_all add: Let_def)

lemma column_loop_y:
  "map (rect_y \<circ> snd) (column_loop rm pins pin_rect) =
     map (\<lambda>k. rect_y pin_rect + real (Suc k) * real_of_int (Pin_height rm) + real k * kPinSpacing)
         [0..<length pins]"
proof (induction pins arbitrary: pin_rect)
  case Nil
  show ?case by simp
next
  case (Cons pin pins)
  let ?H = "real_of_int (Pin_height rm)"
  let ?next = "pin_rect\<lparr>rect_y := rect_y pin_rect + ?H + kPinSpacing\<rparr>"
  have "map (rect_y \<circ> snd) (column_loop rm (pin # pins) pin_rect)
          = (rect_y pin_rect + ?H) # map (rect_y \<circ> snd) (column_loop rm pins ?next)"
    by (simp add: Let_def)
  also have "map (rect_y \<circ> snd) (column_loop rm pins ?next)
          = map (\<lambda>k. rect_y ?next + real (Suc k) * ?H + real k * kPinSpacing) [0..<length pins]"
    by (rule Cons.IH)
  also have "\<dots> = map (\<lambda>k. rect_y pin_rect + real (Suc (Suc k)) * ?H + real (Suc k) * kPinSpacing)
                      [0..<length pins]"
    by (simp add: algebra_simps)
  finally show ?case
    by (simp add: map_upt_Suc del: upt_Suc)
qed

lemma length_Section_left_calls:
  "length (Section_left_calls rm s pos) = length (filter (\<lambda>p. pin_direction p = IN) (sec_pins s))"
  using arg_cong [OF Section_left_calls_pins, of length rm s pos] by simp

lemma length_Section_right_calls:
  "length (Section_right_calls rm s pos) = length (filter (\<lambda>p. pin_direction p \<noteq> IN) (sec_pins s))"
  using arg_cong [OF Section_right_calls_pins, of length rm s pos] by simp

text \<open>
  Claim C5. \<open>Section::draw\<close> draws two columns: the left one holds exactly the IN pins
  and the right one all the other pins, each in insertion order; the left column is
  anchored at \<open>pos.x\<close>, the right one at \<open>pos.x + pos.width\<close>, and the pins are drawn
  after the border, the left column first. For pins A (IN), B (OUT), C (IN), D (OUT) the
  left column is A, C and the right column is B, D.
\<close>

theorem C5_stable_partition:
  "map fst (Section_left_calls rm s pos) = filter (\<lambda>p. pin_direction p = IN) (sec_pins s)
   \<and> map fst (Section_right_calls rm s pos) = filter (\<lambda>p. pin_direction p \<noteq> IN) (sec_pins s)
   \<and> map (rect_x \<circ> snd) (Section_left_calls rm s pos)
       = replicate (length (Section_left_calls rm s pos)) (rect_x pos)
   \<and> map (rect_x \<circ> snd) (Section_right_calls rm s pos)
       = replicate (length (Section_right_calls rm s pos)) (rect_x pos + rect_width pos)
   \<and> Section_draw rm cm s pos =
       [Save, RectanglePath (rect_x pos) (rect_y pos) (rect_width pos) (rect_height pos), Stroke]
       @ concat (map (\<lambda>(pin, pin_rect). Pin_draw cm pin pin_rect)
                   (Section_left_calls rm s pos @ Section_right_calls rm s pos))
       @ [Restore]
   \<and> (let A = a\<lparr>pin_direction := IN\<rparr>; B = b\<lparr>pin_direction := OUT\<rparr>;
           C = c\<lparr>pin_direction := IN\<rparr>; D = d\<lparr>pin_direction := OUT\<rparr>;
           abcd = Section_addPin (Section_addPin (Section_addPin (Section_addPin
                    (Section_new n) A) B) C) D
       in map fst (Section_left_calls rm abcd pos) = [A, C]
          \<and> map fst (Section_right_calls rm abcd pos) = [B, D])"
proof (intro conjI)
  show "map (rect_x \<circ> snd) (Section_left_calls rm s pos)
       = replicate (length (Section_left_calls rm s pos)) (rect_x pos)"
    unfolding length_Section_left_calls
    by (simp add: Section_left_calls_def column_loop_x copy_if_filter getDirection_def)
  show "map (rect_x \<circ> snd) (Section_right_calls rm s pos)
       = replicate (length (Section_right_calls rm s pos)) (rect_x pos + rect_width pos)"
    unfolding length_Section_right_calls
    by (simp add: Section_right_calls_def column_loop_x copy_if_filter getDirection_def)
  show "Section_draw rm cm s pos =
       [Save, RectanglePath (rect_x pos) (rect_y pos) (rect_width pos) (rect_height pos), Stroke]
       @ concat (map (\<lambda>(pin, pin_rect). Pin_draw cm pin pin_rect)
                   (Section_left_calls rm s pos @ Section_right_calls rm s pos))
       @ [Restore]"
    by (simp add: Section_draw_def)
  show "let A = a\<lparr>pin_direction := IN\<rparr>; B = b\<lparr>pin_direction := OUT\<rparr>;
           C = c\<lparr>pin_direction := IN\<rparr>; D = d\<lparr>pin_direction := OUT\<rparr>;
           abcd = Section_addPin (Section_addPin (Section_addPin (Section_addPin
                    (Section_new n) A) B) C) D
       in map fst (Section_left_calls rm abcd pos) = [A, C]
          \<and> map fst (Section_right_calls rm abcd pos) = [B, D]"
    by (simp add: Let_def Section_left_calls_pins Section_right_calls_pins
        Section_addPin_def Section_new_def)
qed (rule Section_left_calls_pins Section_right_calls_pins)+

text \<open>
  Claim C10. \<open>Section::draw\<close> uses the height of the rectangle it is given for the
  border only: with another height the calls of \<open>Pin::draw\<close> are the same pins with the
  same rectangles in the same order, and the calls on the context differ in the border
  alone. The pins go down from the top of the rectangle: the anchor of the k-th pin of a
  column (from 0) is \<open>pos.y + kTopBottomPadding + (k + 1) * Pin::height() + k * kPinSpacing\<close>,
  whatever the height given.
\<close>

theorem C10_height_only_for_border:
  "Section_left_calls rm s (pos\<lparr>rect_height := h\<rparr>) = Section_left_calls rm s pos
   \<and> Section_right_calls rm s (pos\<lparr>rect_height := h\<rparr>) = Section_right_calls rm s pos
   \<and> Section_draw rm cm s (pos\<lparr>rect_height := h\<rparr>) =
       [Save, RectanglePath (rect_x pos) (rect_y pos) (rect_width pos) h, Stroke]
       @ drop 3 (Section_draw rm cm s pos)
   \<and> map (rect_y \<circ> snd) (Section_left_calls rm s pos) =
       map (\<lambda>k. rect_y pos + kTopBottomPadding
                 + real (Suc k) * real_of_int (Pin_height rm) + real k * kPinSpacing)
           [0..<length (Section_left_calls rm s pos)]
   \<and> map (rect_y \<circ> snd) (Section_right_calls rm s pos) =
       map (\<lambda>k. rect_y pos + kTopBottomPadding
                 + real (Suc k) * real_of_int (Pin_height rm) + real k * kPinSpacing)
           [0..<length (Section_right_calls rm s pos)]"
proof (intro conjI)
  show l: "Section_left_calls rm s (pos\<lparr>rect_height := h\<rparr>) = Section_left_calls rm s pos"
    by (simp add: Section_left_calls_def)
  show r: "Section_right_calls rm s (pos\<lparr>rect_height := h\<rparr>) = Section_right_calls rm s pos"
    by (simp add: Section_right_calls_def)
  show "Section_draw rm cm s (pos\<lparr>rect_height := h\<rparr>) =
       [Save, RectanglePath (rect_x pos) (rect_y pos) (rect_width pos) h, Stroke]
       @ drop 3 (Section_draw rm cm s pos)"
    by (simp add: Section_draw_def l r)
  show "map (rect_y \<circ> snd) (Section_left_calls rm s pos) =
       map (\<lambda>k. rect_y pos + kTopBottomPadding
                 + real (Suc k) * real_of_int (Pin_height rm) + real k * kPinSpacing)
           [0..<length (Section_left_calls rm s pos)]"
    unfolding length_Section_left_calls
    by (simp add: Section_left_calls_def column_loop_y copy_if_filter getDirection_def)
  show "map (rect_y \<circ> snd) (Section_right_calls rm s pos) =
       map (\<lambda>k. rect_y pos + kTopBottomPadding
                 + real (Suc k) * real_of_int (Pin_height rm) + real k * kPinSpacing)
           [0..<length (Section_right_calls rm s pos)]"
    unfolding length_Section_right_calls
    by (simp add: Section_right_calls_def column_loop_y copy_if_filter getDirection_def)
qed

section \<open>The sections of \<open>Symbol::draw\<close>\<close>

lemma widths_loop_Max:
  "widths_loop rm ss innerWidth outerWidth =
     (Max (set (innerWidth # map (Section_minInnerWidth rm) ss)),
      Max (set (outerWidth # map (Section_minOuterWidth rm) ss)))"
proof (induction ss arbitrary: innerWidth outerWidth)
  case Nil
  show ?case by simp
next
  case (Cons s ss)
  show ?case
    by (simp add: Let_def Cons.IH Max_seed_Cons max_def del: set_simps Max_insert)
qed

lemma Section_minOuterWidth_nonneg: "0 \<le> Section_minOuterWidth rm s"
  unfolding Section_minOuterWidth_def minOuterWidth_loop_Max by (rule Max_seed_nonneg)

lemma Section_minInnerWidth_nonneg: "0 \<le> Section_minInnerWidth rm s"
  unfolding Section_minInnerWidth_seed
  by (intro add_nonneg_nonneg Max_seed_nonneg) simp

lemma Max_seed_image:
  fixes f :: "'a \<Rightarrow> int"
  assumes "\<And>x. 0 \<le> f x" and "xs \<noteq> []"
  shows "Max (set (0 # map f xs)) = Max (f ` set xs)"
proof -
  have "Max (set (0 # map f xs)) = max_or_zero (map f xs)"
    by (rule Max_seed_zero) (simp add: assms(1))
  with assms(2) show ?thesis by (simp add: max_or_zero_def)
qed

lemma sections_loop_map:
  "sections_loop rm ss innerWidth outerWidth extents =
     map (\<lambda>s. (s, \<lparr>rect_x = real_of_int outerWidth,
                    rect_y = te_height extents + kNameSpacing,
                    rect_width = real_of_int innerWidth,
                    rect_height = real_of_int (Section_height rm s)\<rparr>)) ss"
  by (induction ss) (simp_all add: Let_def)

lemma Symbol_section_calls_map:
  "Symbol_section_calls rm cm symb =
     map (\<lambda>s. (s, \<lparr>rect_x = real_of_int (Max (set (0 # map (Section_minOuterWidth rm) (sym_sections symb)))),
                    rect_y = te_height (cm (sym_name symb)) + kNameSpacing,
                    rect_width = real_of_int (Max (set (0 # map (Section_minInnerWidth rm) (sym_sections symb)))),
                    rect_height = real_of_int (Section_height rm s)\<rparr>))
         (sym_sections symb)"
  unfolding Symbol_section_calls_def widths_loop_Max prod.case sections_loop_map ..

text \<open>
  Claim C3. \<open>Symbol::draw\<close> calls \<open>Section::draw\<close> once for every section, in order,
  and every call gets the same x (the largest \<open>minOuterWidth()\<close> of the sections of the
  symbol) and the same width (the largest \<open>minInnerWidth()\<close> of its sections), whatever
  the widths of the section drawn.
\<close>

theorem C3_shared_origin_and_width:
  "map fst (Symbol_section_calls rm cm symb) = sym_sections symb
   \<and> drop 4 (Symbol_draw rm cm symb)
       = concat (map (\<lambda>(s, r). Section_draw rm cm s r) (Symbol_section_calls rm cm symb))
   \<and> (\<forall>(s, r) \<in> set (Symbol_section_calls rm cm symb).
         rect_x r = real_of_int (Max (Section_minOuterWidth rm ` set (sym_sections symb)))
         \<and> rect_width r = real_of_int (Max (Section_minInnerWidth rm ` set (sym_sections symb))))"
proof (intro conjI)
  show "map fst (Symbol_section_calls rm cm symb) = sym_sections symb"
    by (simp add: Symbol_section_calls_map comp_def)
  show "drop 4 (Symbol_draw rm cm symb)
       = concat (map (\<lambda>(s, r). Section_draw rm cm s r) (Symbol_section_calls rm cm symb))"
    by (simp add: Symbol_draw_def Let_def split: prod.splits)
  show "\<forall>(s, r) \<in> set (Symbol_section_calls rm cm symb).
         rect_x r = real_of_int (Max (Section_minOuterWidth rm ` set (sym_sections symb)))
         \<and> rect_width r = real_of_int (Max (Section_minInnerWidth rm ` set (sym_sections symb)))"
  proof (cases "sym_sections symb = []")
    case True
    then show ?thesis by (simp add: Symbol_section_calls_map)
  next
    case False
    have o: "Max (set (0 # map (Section_minOuterWidth rm) (sym_sections symb)))
               = Max (Section_minOuterWidth rm ` set (sym_sections symb))"
      using False by (intro Max_seed_image Section_minOuterWidth_nonneg)
    have i: "Max (set (0 # map (Section_minInnerWidth rm) (sym_sections symb)))
               = Max (Section_minInnerWidth rm ` set (sym_sections symb))"
      using False by (intro Max_seed_image Section_minInnerWidth_nonneg)
    show ?thesis
      unfolding Symbol_section_calls_map o i by auto
  qed
qed

lemma main_pins_widths:
  "Section_minInnerWidth mono_measure main_pins = 98"
  "Section_minOuterWidth mono_measure main_pins = 92"
  by (simp_all add: main_pins_def Section_new_def Section_addPin_def pin1_def pin2_def pin3_def
      pin4_def Section_minInnerWidth_def Section_minOuterWidth_def Pin_innerWidth_def
      Pin_outerWidth_def getDirection_def mono_measure_def kTextPadding_def kStemLength_def
      kTextSeparator_def double_to_int_def)

lemma clk_section_widths:
  "Section_minInnerWidth mono_measure clk_section = 33"
  "Section_minOuterWidth mono_measure clk_section = 50"
  by (simp_all add: clk_section_def Section_new_def Section_addPin_def
      Section_minInnerWidth_def Section_minOuterWidth_def Pin_innerWidth_def
      Pin_outerWidth_def getDirection_def mono_measure_def kTextPadding_def kStemLength_def
      kTextSeparator_def double_to_int_def)

lemma two_symbol_sections: "sym_sections two_symbol = [main_pins, clk_section]"
  by (simp add: two_symbol_def Symbol_new_def Symbol_addSection_def)

theorem C3_shared_origin_and_width_witness:
  "map fst (Symbol_section_calls mono_measure mono_measure two_symbol) = [main_pins, clk_section]
   \<and> map (rect_x \<circ> snd) (Symbol_section_calls mono_measure mono_measure two_symbol) = [92, 92]
   \<and> map (rect_width \<circ> snd) (Symbol_section_calls mono_measure mono_measure two_symbol) = [98, 98]
   \<and> Section_minOuterWidth mono_measure clk_section = 50
   \<and> Section_minInnerWidth mono_measure clk_section = 33"
proof -
  obtain c1 c2 where c: "Symbol_section_calls mono_measure mono_measure two_symbol = [c1, c2]"
    by (simp add: Symbol_section_calls_map two_symbol_sections)
  have "fst c1 = main_pins \<and> fst c2 = clk_section
        \<and> rect_x (snd c1) = 92 \<and> rect_width (snd c1) = 98
        \<and> rect_x (snd c2) = 92 \<and> rect_width (snd c2) = 98"
    using C3_shared_origin_and_width [of mono_measure mono_measure two_symbol]
    by (simp add: c two_symbol_sections main_pins_widths clk_section_widths split_beta)
  then show ?thesis
    by (simp add: c clk_section_widths)
qed

lemma two_symbol_heights:
  "Section_height mono_measure main_pins = 54"
  "Section_height mono_measure clk_section = 28"
  by (simp_all add: Section_height_int Section_rows_max Pin_height_def mono_measure_def
      double_to_int_def main_pins_def clk_section_def Section_new_def Section_addPin_def
      pin1_def pin2_def pin3_def pin4_def)

text \<open>
  Claim C1 asks for sections stacked one below the other. \<open>Symbol::draw\<close> builds the
  rectangle of every section with \<open>y = extents.height + kNameSpacing\<close>, the top of the
  first section, and never adds the height of the sections already drawn: every
  section is drawn at the same top (x, width and height are as the claim says). For the
  symbol holding the section of \<open>main\<close> (height 54) and then the clock section, with
  the sample measurement, both tops are 13, where the claim asks 13 + 54 = 67 for the second.
\<close>

theorem C1_sections_share_one_top:
  "map (rect_y \<circ> snd) (Symbol_section_calls rm cm symb)
     = replicate (length (sym_sections symb)) (te_height (cm (sym_name symb)) + kNameSpacing)
   \<and> map (rect_height \<circ> snd) (Symbol_section_calls rm cm symb)
     = map (\<lambda>s. real_of_int (Section_height rm s)) (sym_sections symb)
   \<and> sym_sections two_symbol = [main_pins, clk_section]
   \<and> map (rect_y \<circ> snd) (Symbol_section_calls mono_measure mono_measure two_symbol) = [13, 13]
   \<and> map (rect_height \<circ> snd) (Symbol_section_calls mono_measure mono_measure two_symbol) = [54, 28]"
proof -
  have y: "map (rect_y \<circ> snd) (Symbol_section_calls rm cm symb)
     = replicate (length (sym_sections symb)) (te_height (cm (sym_name symb)) + kNameSpacing)"
    for rm cm symb
    by (simp add: Symbol_section_calls_map comp_def map_replicate_const del: set_simps Max_insert)
  have h: "map (rect_height \<circ> snd) (Symbol_section_calls rm cm symb)
     = map (\<lambda>s. real_of_int (Section_height rm s)) (sym_sections symb)" for rm cm symb
    by (simp add: Symbol_section_calls_map comp_def del: set_simps Max_insert)
  have y2: "map (rect_y \<circ> snd) (Symbol_section_calls mono_measure mono_measure two_symbol) = [13, 13]"
    unfolding y two_symbol_sections
    by (simp add: mono_measure_def kNameSpacing_def)
  have h2: "map (rect_height \<circ> snd) (Symbol_section_calls mono_measure mono_measure two_symbol) = [54, 28]"
    unfolding h two_symbol_sections
    by (simp add: two_symbol_heights)
  from y h two_symbol_sections y2 h2 show ?thesis by blast
qed

section \<open>The two directions of \<open>Pin::draw\<close>\<close>

lemma marks_Pin_draw_IN:
  assumes "pin_direction pin = IN"
  shows "marks cm cp (Pin_draw cm pin pos) =
     [TextSpan (pin_name pin)
        (rect_x pos + kTextPadding)
        (rect_x pos + kTextPadding + te_width (cm (pin_name pin)))
        (rect_y pos),
      Segment (rect_x pos) (rect_y pos + te_y_bearing (cm (pin_name pin)) / 2)
              (rect_x pos - kStemLength) (rect_y pos + te_y_bearing (cm (pin_name pin)) / 2),
      TextSpan (pin_type pin)
        (rect_x pos - kTextPadding - kStemLength - te_width (cm (pin_type pin)))
        (rect_x pos - kTextPadding - kStemLength)
        (rect_y pos)]"
  using assms by (simp add: Pin_draw_def drawRTLText_def Let_def)

lemma marks_Pin_draw_not_IN:
  assumes "pin_direction pin \<noteq> IN"
  shows "marks cm cp (Pin_draw cm pin pos) =
     [TextSpan (pin_name pin)
        (rect_x pos - kTextPadding - te_width (cm (pin_name pin)))
        (rect_x pos - kTextPadding)
        (rect_y pos),
      Segment (rect_x pos) (rect_y pos + te_y_bearing (cm (pin_name pin)) / 2)
              (rect_x pos + kStemLength) (rect_y pos + te_y_bearing (cm (pin_name pin)) / 2),
      TextSpan (pin_type pin)
        (rect_x pos + kTextPadding + kStemLength)
        (rect_x pos + kTextPadding + kStemLength + te_width (cm (pin_type pin)))
        (rect_y pos)]"
  using assms by (simp add: Pin_draw_def drawRTLText_def Let_def)

lemma line_width_Pin_draw:
  "(SetLineWidth w \<in> set (Pin_draw cm pin pos))
     = (w = (if pin_is_bus pin then kBusStemWidth else kWireStemWidth))"
  by (auto simp add: Pin_draw_def drawRTLText_def Let_def)

text \<open>
  Claim C7. Take an IN pin and an OUT pin with the same name, type and bus flag, drawn
  at the same anchor \<open>(x, y)\<close>. The name of the IN pin begins at \<open>x + kTextPadding\<close>, the
  name of the OUT pin ends at \<open>x - kTextPadding\<close>; the stems go from the anchor to
  \<open>x - kStemLength\<close> and to \<open>x + kStemLength\<close>, at the same height and with the same line
  width; the type of the IN pin ends at \<open>x - (kTextPadding + kStemLength)\<close>, the type of
  the OUT pin begins at \<open>x + (kTextPadding + kStemLength)\<close>. What the OUT pin puts on the
  page is the reflection in the vertical line through the anchor of what the IN pin puts.
  The theorem gives the calls of both pins first, then the positions read off them.
\<close>

theorem C7_mirrored_pins:
  assumes "pin_direction a = IN" and "pin_direction b = OUT"
    and "pin_name a = pin_name b" and "pin_type a = pin_type b"
    and "pin_is_bus a = pin_is_bus b"
  shows "Pin_draw cm a pos =
           [Save,
            Save, MoveTo (rect_x pos + kTextPadding) (rect_y pos), ShowText (pin_name a),
            ClosePath, Restore,
            Save, SetLineWidth (if pin_is_bus a then kBusStemWidth else kWireStemWidth),
            MoveTo (rect_x pos) (rect_y pos + te_y_bearing (cm (pin_name a)) / 2),
            LineTo (rect_x pos - kStemLength) (rect_y pos + te_y_bearing (cm (pin_name a)) / 2),
            Stroke, Restore,
            Save, SetSourceRGB (1/2) (1/2) (1/2),
            MoveTo (rect_x pos - kTextPadding - kStemLength) (rect_y pos),
            RelMoveTo (- te_width (cm (pin_type a))) 0, ShowText (pin_type a), Restore,
            Restore]
         \<and> Pin_draw cm b pos =
           [Save,
            Save, MoveTo (rect_x pos - kTextPadding) (rect_y pos),
            RelMoveTo (- te_width (cm (pin_name a))) 0, ShowText (pin_name a),
            ClosePath, Restore,
            Save, SetLineWidth (if pin_is_bus a then kBusStemWidth else kWireStemWidth),
            MoveTo (rect_x pos) (rect_y pos + te_y_bearing (cm (pin_name a)) / 2),
            LineTo (rect_x pos + kStemLength) (rect_y pos + te_y_bearing (cm (pin_name a)) / 2),
            Stroke, Restore,
            Save, SetSourceRGB (1/2) (1/2) (1/2),
            MoveTo (rect_x pos + kTextPadding + kStemLength) (rect_y pos),
            ShowText (pin_type a), Restore,
            Restore]
         \<and> marks cm None (Pin_draw cm a pos) =
           [TextSpan (pin_name a)
              (rect_x pos + kTextPadding)
              (rect_x pos + kTextPadding + te_width (cm (pin_name a)))
              (rect_y pos),
            Segment (rect_x pos) (rect_y pos + te_y_bearing (cm (pin_name a)) / 2)
                    (rect_x pos - kStemLength) (rect_y pos + te_y_bearing (cm (pin_name a)) / 2),
            TextSpan (pin_type a)
              (rect_x pos - (kTextPadding + kStemLength) - te_width (cm (pin_type a)))
              (rect_x pos - (kTextPadding + kStemLength))
              (rect_y pos)]
         \<and> marks cm None (Pin_draw cm b pos) =
           [TextSpan (pin_name a)
              (rect_x pos - kTextPadding - te_width (cm (pin_name a)))
              (rect_x pos - kTextPadding)
              (rect_y pos),
            Segment (rect_x pos) (rect_y pos + te_y_bearing (cm (pin_name a)) / 2)
                    (rect_x pos + kStemLength) (rect_y pos + te_y_bearing (cm (pin_name a)) / 2),
            TextSpan (pin_type a)
              (rect_x pos + (kTextPadding + kStemLength))
              (rect_x pos + (kTextPadding + kStemLength) + te_width (cm (pin_type a)))
              (rect_y pos)]
         \<and> marks cm None (Pin_draw cm b pos)
             = map (mirror (rect_x pos)) (marks cm None (Pin_draw cm a pos))
         \<and> (SetLineWidth w \<in> set (Pin_draw cm a pos)) = (SetLineWidth w \<in> set (Pin_draw cm b pos))"
proof -
  have b: "pin_direction b \<noteq> IN"
    using assms(2) by simp
  have calls_a: "Pin_draw cm a pos =
           [Save,
            Save, MoveTo (rect_x pos + kTextPadding) (rect_y pos), ShowText (pin_name a),
            ClosePath, Restore,
            Save, SetLineWidth (if pin_is_bus a then kBusStemWidth else kWireStemWidth),
            MoveTo (rect_x pos) (rect_y pos + te_y_bearing (cm (pin_name a)) / 2),
            LineTo (rect_x pos - kStemLength) (rect_y pos + te_y_bearing (cm (pin_name a)) / 2),
            Stroke, Restore,
            Save, SetSourceRGB (1/2) (1/2) (1/2),
            MoveTo (rect_x pos - kTextPadding - kStemLength) (rect_y pos),
            RelMoveTo (- te_width (cm (pin_type a))) 0, ShowText (pin_type a), Restore,
            Restore]"
    using assms(1) by (simp add: Pin_draw_def drawRTLText_def Let_def)
  have calls_b: "Pin_draw cm b pos =
           [Save,
            Save, MoveTo (rect_x pos - kTextPadding) (rect_y pos),
            RelMoveTo (- te_width (cm (pin_name a))) 0, ShowText (pin_name a),
            ClosePath, Restore,
            Save, SetLineWidth (if pin_is_bus a then kBusStemWidth else kWireStemWidth),
            MoveTo (rect_x pos) (rect_y pos + te_y_bearing (cm (pin_name a)) / 2),
            LineTo (rect_x pos + kStemLength) (rect_y pos + te_y_bearing (cm (pin_name a)) / 2),
            Stroke, Restore,
            Save, SetSourceRGB (1/2) (1/2) (1/2),
            MoveTo (rect_x pos + kTextPadding + kStemLength) (rect_y pos),
            ShowText (pin_type a), Restore,
            Restore]"
    using assms(2-5) by (simp add: Pin_draw_def drawRTLText_def Let_def)
  have rest: "marks cm None (Pin_draw cm a pos) =
           [TextSpan (pin_name a)
              (rect_x pos + kTextPadding)
              (rect_x pos + kTextPadding + te_width (cm (pin_name a)))
              (rect_y pos),
            Segment (rect_x pos) (rect_y pos + te_y_bearing (cm (pin_name a)) / 2)
                    (rect_x pos - kStemLength) (rect_y pos + te_y_bearing (cm (pin_name a)) / 2),
            TextSpan (pin_type a)
              (rect_x pos - (kTextPadding + kStemLength) - te_width (cm (pin_type a)))
              (rect_x pos - (kTextPadding + kStemLength))
              (rect_y pos)]
         \<and> marks cm None (Pin_draw cm b pos) =
           [TextSpan (pin_name a)
              (rect_x pos - kTextPadding - te_width (cm (pin_name a)))
              (rect_x pos - kTextPadding)
              (rect_y pos),
            Segment (rect_x pos) (rect_y pos + te_y_bearing (cm (pin_name a)) / 2)
                    (rect_x pos + kStemLength) (rect_y pos + te_y_bearing (cm (pin_name a)) / 2),
            TextSpan (pin_type a)
              (rect_x pos + (kTextPadding + kStemLength))
              (rect_x pos + (kTextPadding + kStemLength) + te_width (cm (pin_type a)))
              (rect_y pos)]
         \<and> marks cm None (Pin_draw cm b pos)
             = map (mirror (rect_x pos)) (marks cm None (Pin_draw cm a pos))
         \<and> (SetLineWidth w \<in> set (Pin_draw cm a pos)) = (SetLineWidth w \<in> set (Pin_draw cm b pos))"
    unfolding marks_Pin_draw_IN [OF assms(1)] marks_Pin_draw_not_IN [OF b] line_width_Pin_draw
    using assms(3-5) by (simp add: algebra_simps)
  from calls_a calls_b rest show ?thesis by (intro conjI) (elim conjE, assumption)+
qed

theorem C7_mirrored_pins_witness:
  "pin_direction pin1 = IN \<and> pin_direction (pin1\<lparr>pin_direction := OUT\<rparr>) = OUT
   \<and> marks mono_measure None (Pin_draw mono_measure pin1 sample_rect)
       = [TextSpan ''i_foo'' 97 127 13, Segment 92 9 77 9, TextSpan ''logic [15:0]'' 0 72 13]
   \<and> marks mono_measure None (Pin_draw mono_measure (pin1\<lparr>pin_direction := OUT\<rparr>) sample_rect)
       = [TextSpan ''i_foo'' 57 87 13, Segment 92 9 107 9, TextSpan ''logic [15:0]'' 112 184 13]"
proof -
  have "pin_direction pin1 = IN" "pin_direction (pin1\<lparr>pin_direction := OUT\<rparr>) = OUT"
    "pin_name pin1 = pin_name (pin1\<lparr>pin_direction := OUT\<rparr>)"
    "pin_type pin1 = pin_type (pin1\<lparr>pin_direction := OUT\<rparr>)"
    "pin_is_bus pin1 = pin_is_bus (pin1\<lparr>pin_direction := OUT\<rparr>)"
    by (simp_all add: pin1_def)
  from C7_mirrored_pins [OF this, of mono_measure sample_rect]
  show ?thesis
    by (simp add: pin1_def sample_rect_def mono_measure_def kTextPadding_def kStemLength_def)
qed

text \<open>
  Claim C9. When the measurement gives the empty text the width 0: a pin with an empty
  type has \<open>outerWidth() = kStemLength + kTextPadding\<close>, and \<open>draw\<close> puts its name and its
  stem where it puts them for any other type; a pin with an empty name has
  \<open>innerWidth() = kTextPadding\<close>.
\<close>

theorem C9_empty_type_and_name:
  assumes "te_width (rm []) = 0"
  shows "(pin_type pin = [] \<longrightarrow>
            real_of_int (Pin_outerWidth rm pin) = kStemLength + kTextPadding)
         \<and> (pin_name pin = [] \<longrightarrow> real_of_int (Pin_innerWidth rm pin) = kTextPadding)
         \<and> (pin_type pin = [] \<longrightarrow>
              ShowText (pin_name pin) \<in> set (Pin_draw cm pin pos)
              \<and> Stroke \<in> set (Pin_draw cm pin pos)
              \<and> take 2 (marks cm None (Pin_draw cm pin pos)) =
                  (if pin_direction pin = IN
                   then [TextSpan (pin_name pin)
                           (rect_x pos + kTextPadding)
                           (rect_x pos + kTextPadding + te_width (cm (pin_name pin)))
                           (rect_y pos),
                         Segment (rect_x pos) (rect_y pos + te_y_bearing (cm (pin_name pin)) / 2)
                           (rect_x pos - kStemLength)
                           (rect_y pos + te_y_bearing (cm (pin_name pin)) / 2)]
                   else [TextSpan (pin_name pin)
                           (rect_x pos - kTextPadding - te_width (cm (pin_name pin)))
                           (rect_x pos - kTextPadding)
                           (rect_y pos),
                         Segment (rect_x pos) (rect_y pos + te_y_bearing (cm (pin_name pin)) / 2)
                           (rect_x pos + kStemLength)
                           (rect_y pos + te_y_bearing (cm (pin_name pin)) / 2)])
              \<and> take 2 (marks cm None (Pin_draw cm pin pos))
                  = take 2 (marks cm None (Pin_draw cm (pin\<lparr>pin_type := ty\<rparr>) pos)))"
proof (intro conjI impI)
  assume "pin_type pin = []"
  with assms show "real_of_int (Pin_outerWidth rm pin) = kStemLength + kTextPadding"
    by (simp add: Pin_outerWidth_def kStemLength_def kTextPadding_def double_to_int_def)
next
  assume "pin_name pin = []"
  with assms show "real_of_int (Pin_innerWidth rm pin) = kTextPadding"
    by (simp add: Pin_innerWidth_def kTextPadding_def double_to_int_def)
next
  show "ShowText (pin_name pin) \<in> set (Pin_draw cm pin pos)"
    by (simp add: Pin_draw_def drawRTLText_def Let_def)
  show "Stroke \<in> set (Pin_draw cm pin pos)"
    by (simp add: Pin_draw_def drawRTLText_def Let_def)
  show "take 2 (marks cm None (Pin_draw cm pin pos)) =
                  (if pin_direction pin = IN
                   then [TextSpan (pin_name pin)
                           (rect_x pos + kTextPadding)
                           (rect_x pos + kTextPadding + te_width (cm (pin_name pin)))
                           (rect_y pos),
                         Segment (rect_x pos) (rect_y pos + te_y_bearing (cm (pin_name pin)) / 2)
                           (rect_x pos - kStemLength)
                           (rect_y pos + te_y_bearing (cm (pin_name pin)) / 2)]
                   else [TextSpan (pin_name pin)
                           (rect_x pos - kTextPadding - te_width (cm (pin_name pin)))
                           (rect_x pos - kTextPadding)
                           (rect_y pos),
                         Segment (rect_x pos) (rect_y pos + te_y_bearing (cm (pin_name pin)) / 2)
                           (rect_x pos + kStemLength)
                           (rect_y pos + te_y_bearing (cm (pin_name pin)) / 2)])"
    by (cases "pin_direction pin = IN") (simp_all add: marks_Pin_draw_IN marks_Pin_draw_not_IN)
  show "take 2 (marks cm None (Pin_draw cm pin pos))
                  = take 2 (marks cm None (Pin_draw cm (pin\<lparr>pin_type := ty\<rparr>) pos))"
    by (cases "pin_direction pin = IN") (simp_all add: marks_Pin_draw_IN marks_Pin_draw_not_IN)
qed

theorem C9_empty_type_and_name_witness:
  "te_width (mono_measure []) = 0
   \<and> Pin_outerWidth mono_measure (pin2\<lparr>pin_type := []\<rparr>) = 20
   \<and> Pin_innerWidth mono_measure (pin2\<lparr>pin_name := []\<rparr>) = 5
   \<and> take 2 (marks mono_measure None
                (Pin_draw mono_measure (pin2\<lparr>pin_type := []\<rparr>) sample_rect))
       = [TextSpan ''o_bar'' 57 87 13, Segment 92 9 107 9]"
proof -
  have h: "te_width (mono_measure []) = 0"
    by (simp add: mono_measure_def)
  have "real_of_int (Pin_outerWidth mono_measure (pin2\<lparr>pin_type := []\<rparr>)) = 20"
    using C9_empty_type_and_name [where rm = mono_measure and pin = "pin2\<lparr>pin_type := []\<rparr>"
            and cm = mono_measure and pos = sample_rect, OF h]
    by (simp add: kStemLength_def kTextPadding_def)
  then have o: "Pin_outerWidth mono_measure (pin2\<lparr>pin_type := []\<rparr>) = 20"
    by linarith
  have "real_of_int (Pin_innerWidth mono_measure (pin2\<lparr>pin_name := []\<rparr>)) = 5"
    using C9_empty_type_and_name [where rm = mono_measure and pin = "pin2\<lparr>pin_name := []\<rparr>"
            and cm = mono_measure and pos = sample_rect, OF h]
    by (simp add: kTextPadding_def)
  then have i: "Pin_innerWidth mono_measure (pin2\<lparr>pin_name := []\<rparr>) = 5"
    by linarith
  have "take 2 (marks mono_measure None
                (Pin_draw mono_measure (pin2\<lparr>pin_type := []\<rparr>) sample_rect))
       = [TextSpan ''o_bar'' 57 87 13, Segment 92 9 107 9]"
    using C9_empty_type_and_name [where rm = mono_measure and pin = "pin2\<lparr>pin_type := []\<rparr>"
            and cm = mono_measure and pos = sample_rect, OF h]
    by (simp add: pin2_def sample_rect_def mono_measure_def kTextPadding_def kStemLength_def)
  with h o i show ?thesis by simp
qed

end
